theory Spec2Isabelle
  imports Complex_Main "HOL-Library.Word"
begin

section \<open>Package security: constants\<close>

text \<open>
  The string constants of \<^verbatim>\<open>pkg/security/security.go\<close> that the extractors and the
  secret store use. A Go string is a sequence of bytes, a \<^typ>\<open>string\<close> here.
\<close>

definition RootCertReqResourceName :: string where
  "RootCertReqResourceName = ''ROOTCA''"

definition WorkloadKeyCertResourceName :: string where
  "WorkloadKeyCertResourceName = ''default''"

definition BearerTokenPrefix :: string where
  "BearerTokenPrefix = ''Bearer ''"

definition K8sTokenPrefix :: string where
  "K8sTokenPrefix = ''Istio ''"

definition authorizationMeta :: string where
  "authorizationMeta = ''authorization''"

section \<open>Library functions the extractors call\<close>

subsection \<open>Package strings\<close>

text \<open>
  \<^verbatim>\<open>strings.HasPrefix(s, prefix)\<close> is
  \<^verbatim>\<open>len(s) >= len(prefix) && s[:len(prefix)] == prefix\<close>, a comparison of bytes;
  \<^verbatim>\<open>strings.TrimPrefix\<close> cuts the prefix off when it is there and returns \<open>s\<close>
  unchanged otherwise.
\<close>

definition HasPrefix :: "string \<Rightarrow> string \<Rightarrow> bool" where
  "HasPrefix s prefix =
     (length prefix \<le> length s \<and> take (length prefix) s = prefix)"

definition TrimPrefix :: "string \<Rightarrow> string \<Rightarrow> string" where
  "TrimPrefix s prefix =
     (if HasPrefix s prefix then drop (length prefix) s else s)"

subsection \<open>Errors\<close>

text \<open>
  Every error of the two extractors is made by \<^verbatim>\<open>fmt.Errorf\<close> from a constant format
  string with no verbs, so an error value is its message. A Go function returning
  \<^verbatim>\<open>(string, error)\<close> returns both components; \<^verbatim>\<open>nil\<close> is \<^term>\<open>None\<close>.
\<close>

datatype error = Errorf string

type_synonym result = "string \<times> error option"

subsection \<open>gRPC metadata carried by a context\<close>

text \<open>
  \<^verbatim>\<open>metadata.MD\<close> is \<^verbatim>\<open>map[string][]string\<close>. Of a \<^verbatim>\<open>context.Context\<close> the
  extractor reads only what \<^verbatim>\<open>metadata.FromIncomingContext\<close> returns for it: the
  incoming metadata and whether any is attached. The context is modelled by that
  content; without metadata the library returns \<^verbatim>\<open>(nil, false)\<close>, and reading a nil
  map finds no key.
\<close>

type_synonym MD = "string \<rightharpoonup> string list"

record Context =
  IncomingMD :: "MD option"

definition FromIncomingContext :: "Context \<Rightarrow> MD \<times> bool" where
  "FromIncomingContext ctx =
     (case IncomingMD ctx of
        None \<Rightarrow> (Map.empty, False)
      | Some md \<Rightarrow> (md, True))"

subsection \<open>HTTP request headers\<close>

text \<open>
  \<^verbatim>\<open>http.Header\<close> is \<^verbatim>\<open>map[string][]string\<close> whose keys are stored in canonical
  form. \<^verbatim>\<open>Header.Get(key)\<close> canonicalises \<open>key\<close> with
  \<^verbatim>\<open>textproto.CanonicalMIMEHeaderKey\<close> and returns the first value stored under it,
  or the empty string when there is none. Canonical form: the first letter and every
  letter after a hyphen in upper case, the other letters in lower case; a key with a
  byte that is not a header token byte is left as it is.
\<close>

definition isUpperByte :: "char \<Rightarrow> bool" where
  "isUpperByte c = (65 \<le> (of_char c :: nat) \<and> (of_char c :: nat) \<le> 90)"

definition isLowerByte :: "char \<Rightarrow> bool" where
  "isLowerByte c = (97 \<le> (of_char c :: nat) \<and> (of_char c :: nat) \<le> 122)"

definition toLowerByte :: "char \<Rightarrow> char" where
  "toLowerByte c = (if isUpperByte c then char_of ((of_char c :: nat) + 32) else c)"

definition toUpperByte :: "char \<Rightarrow> char" where
  "toUpperByte c = (if isLowerByte c then char_of ((of_char c :: nat) - 32) else c)"

definition validHeaderFieldByte :: "char \<Rightarrow> bool" where
  "validHeaderFieldByte c =
     (let n = (of_char c :: nat) in
        (48 \<le> n \<and> n \<le> 57) \<or> isUpperByte c \<or> isLowerByte c \<or>
        n \<in> {33, 35, 36, 37, 38, 39, 42, 43, 45, 46, 94, 95, 96, 124, 126})"

fun canonicalBytes :: "bool \<Rightarrow> string \<Rightarrow> string" where
  "canonicalBytes upper [] = []"
| "canonicalBytes upper (c # cs) =
     (let c' = (if upper then toUpperByte c else toLowerByte c)
      in c' # canonicalBytes (c' = CHR ''-'') cs)"

definition CanonicalMIMEHeaderKey :: "string \<Rightarrow> string" where
  "CanonicalMIMEHeaderKey s =
     (if list_all validHeaderFieldByte s then canonicalBytes True s else s)"

type_synonym Header = "string \<rightharpoonup> string list"

definition Header_Get :: "Header \<Rightarrow> string \<Rightarrow> string" where
  "Header_Get h key =
     (case h (CanonicalMIMEHeaderKey key) of
        None \<Rightarrow> []
      | Some [] \<Rightarrow> []
      | Some (v # _) \<Rightarrow> v)"

record Request =
  Header :: Header

section \<open>The token extractors\<close>

text \<open>
  \<^verbatim>\<open>ExtractBearerToken\<close>: the loop over the values of the \<open>authorization\<close> key returns
  at the first value with the bearer prefix; when the loop ends without returning,
  the function returns its last error.
\<close>

fun bearerLoop :: "string list \<Rightarrow> result" where
  "bearerLoop [] =
     ([], Some (Errorf ''no bearer token exists in HTTP authorization header''))"
| "bearerLoop (value # rest) =
     (if HasPrefix value BearerTokenPrefix
      then (TrimPrefix value BearerTokenPrefix, None)
      else bearerLoop rest)"

definition ExtractBearerToken :: "Context \<Rightarrow> result" where
  "ExtractBearerToken ctx =
     (case FromIncomingContext ctx of (md, ok) \<Rightarrow>
        if \<not> ok then ([], Some (Errorf ''no metadata is attached''))
        else (case md authorizationMeta of
                None \<Rightarrow> ([], Some (Errorf ''no HTTP authorization header exists''))
              | Some authHeader \<Rightarrow> bearerLoop authHeader))"

definition ExtractRequestToken :: "Request \<Rightarrow> result" where
  "ExtractRequestToken req =
     (let value = Header_Get (Header req) authorizationMeta in
        if value = [] then ([], Some (Errorf ''no HTTP authorization header exists''))
        else if HasPrefix value BearerTokenPrefix
          then (TrimPrefix value BearerTokenPrefix, None)
        else if HasPrefix value K8sTokenPrefix
          then (TrimPrefix value K8sTokenPrefix, None)
        else ([], Some (Errorf ''no bearer token exists in HTTP authorization header'')))"

section \<open>Prefixes that differ only in case\<close>

text \<open>
  Two byte strings differ only in case when they are different and equal after every
  ASCII upper-case letter is replaced by its lower-case letter. A value starts with a
  case variant of a prefix when its first \<open>length prefix\<close> bytes differ from the prefix
  only in case: \<open>bearer abc\<close> and \<open>BEARER abc\<close> do for \<open>Bearer \<close>.
\<close>

definition differsOnlyInCase :: "string \<Rightarrow> string \<Rightarrow> bool" where
  "differsOnlyInCase s t = (s \<noteq> t \<and> map toLowerByte s = map toLowerByte t)"

definition startsWithCaseVariant :: "string \<Rightarrow> string \<Rightarrow> bool" where
  "startsWithCaseVariant value prefix =
     differsOnlyInCase (take (length prefix) value) prefix"

section \<open>Cached secrets and their rotation\<close>

text \<open>
  \<^verbatim>\<open>SecretItem\<close> is the cached item of the in-memory secret store. A \<^verbatim>\<open>time.Time\<close> is
  an instant and a \<^verbatim>\<open>time.Duration\<close> a signed count of nanoseconds; both are integers
  here, an instant counted in nanoseconds from a fixed origin.
\<close>

type_synonym byte = "8 word"

record SecretItem =
  CertificateChain :: "byte list"
  PrivateKey :: "byte list"
  RootCert :: "byte list"
  ResourceName :: string
  CreatedTime :: int
  ExpireTime :: int

definition Second :: int where
  "Second = 1000000000"

definition Minute :: int where
  "Minute = 60 * Second"

definition Hour :: int where
  "Hour = 60 * Minute"

text \<open>
  Modelled from the spec: the rotation schedule of the secret manager, whose code is
  not in \<^verbatim>\<open>pkg/security/security.go\<close> (the file declares the \<^verbatim>\<open>SecretManager\<close>
  interface and the option \<^verbatim>\<open>SecretRotationGracePeriodRatio\<close> only). The spec's
  glossary: the rotation grace ratio is the fraction of the total TTL subtracted from
  the expiry to determine the proactive-rotation deadline; the option's comment: at
  0.10 and 1 hour TTL the certificate is refreshed 6 minutes before expiration. The
  ratio is a \<^verbatim>\<open>float64\<close> in the code and an exact rational here.
\<close>

definition rotationGracePeriod :: "SecretItem \<Rightarrow> rat \<Rightarrow> rat" where
  "rotationGracePeriod S ratio = ratio * of_int (ExpireTime S - CreatedTime S)"

definition rotationDeadline :: "SecretItem \<Rightarrow> rat \<Rightarrow> rat" where
  "rotationDeadline S ratio = of_int (ExpireTime S) - rotationGracePeriod S ratio"

definition timeToRotation :: "SecretItem \<Rightarrow> rat \<Rightarrow> rat" where
  "timeToRotation S ratio = rotationDeadline S ratio - of_int (CreatedTime S)"

section \<open>Helper lemmas\<close>

lemma HasPrefix_append: "HasPrefix s prefix \<longleftrightarrow> (\<exists>t. s = prefix @ t)"
proof
  assume "HasPrefix s prefix"
  then have "s = prefix @ drop (length prefix) s"
    by (metis HasPrefix_def append_take_drop_id)
  then show "\<exists>t. s = prefix @ t" ..
next
  assume "\<exists>t. s = prefix @ t"
  then show "HasPrefix s prefix"
    by (auto simp: HasPrefix_def)
qed

lemma TrimPrefix_append: "TrimPrefix (prefix @ t) prefix = t"
  by (simp add: TrimPrefix_def HasPrefix_def)

lemma HasPrefix_TrimPrefix:
  "HasPrefix s prefix \<Longrightarrow> prefix @ TrimPrefix s prefix = s"
  by (auto simp: HasPrefix_append TrimPrefix_append)

lemma bearerLoop_first:
  assumes "i < length authHeader"
    and "HasPrefix (authHeader ! i) BearerTokenPrefix"
    and "\<forall>j<i. \<not> HasPrefix (authHeader ! j) BearerTokenPrefix"
  shows "bearerLoop authHeader = (TrimPrefix (authHeader ! i) BearerTokenPrefix, None)"
  using assms
proof (induction authHeader arbitrary: i)
  case Nil
  then show ?case by simp
next
  case (Cons v vs)
  show ?case
  proof (cases i)
    case 0
    with Cons.prems show ?thesis by simp
  next
    case (Suc k)
    from Cons.prems(3) Suc have nv: "\<not> HasPrefix v BearerTokenPrefix"
      by (metis nth_Cons_0 zero_less_Suc)
    have "\<forall>j<k. \<not> HasPrefix (vs ! j) BearerTokenPrefix"
      using Cons.prems(3) Suc by (metis Suc_less_eq nth_Cons_Suc)
    with Cons.IH [of k] Cons.prems(1,2) Suc
    have "bearerLoop vs = (TrimPrefix (vs ! k) BearerTokenPrefix, None)" by simp
    with nv Suc show ?thesis by simp
  qed
qed

lemma bearerLoop_none:
  "\<forall>v\<in>set vs. \<not> HasPrefix v BearerTokenPrefix \<Longrightarrow>
   bearerLoop vs = ([], Some (Errorf ''no bearer token exists in HTTP authorization header''))"
  by (induction vs) simp_all

lemma bearerLoop_some:
  "\<exists>v\<in>set vs. HasPrefix v BearerTokenPrefix \<Longrightarrow> snd (bearerLoop vs) = None"
  by (induction vs) auto

lemma key_canonical: "CanonicalMIMEHeaderKey ''authorization'' = ''Authorization''"
  by code_simp

lemma toLowerByte_I: "toLowerByte CHR ''I'' = CHR ''i''"
  by code_simp

lemma toLowerByte_B: "toLowerByte CHR ''B'' = CHR ''b''"
  by code_simp

lemma lower_Bearer: "map toLowerByte ''Bearer '' = ''bearer ''"
  by code_simp

lemma lower_Istio: "map toLowerByte ''Istio '' = ''istio ''"
  by code_simp

lemma caseVariant_no_prefix:
  assumes "startsWithCaseVariant value ''Bearer '' \<or> startsWithCaseVariant value ''Istio ''"
  shows "value \<noteq> [] \<and> \<not> HasPrefix value ''Bearer '' \<and> \<not> HasPrefix value ''Istio ''"
  using assms
proof
  assume "startsWithCaseVariant value ''Bearer ''"
  then have ne: "take (length ''Bearer '') value \<noteq> ''Bearer ''"
    and lo: "map toLowerByte (take (length ''Bearer '') value) = map toLowerByte ''Bearer ''"
    unfolding startsWithCaseVariant_def differsOnlyInCase_def by blast+
  from lo have "value \<noteq> []" by auto
  moreover from ne have "\<not> HasPrefix value ''Bearer ''"
    by (simp only: HasPrefix_def) blast
  moreover have "\<not> HasPrefix value ''Istio ''"
  proof
    assume "HasPrefix value ''Istio ''"
    then obtain t where "value = ''Istio '' @ t" by (auto simp: HasPrefix_append)
    with lo show False by (simp add: toLowerByte_I toLowerByte_B)
  qed
  ultimately show ?thesis by simp
next
  assume "startsWithCaseVariant value ''Istio ''"
  then have ne: "take (length ''Istio '') value \<noteq> ''Istio ''"
    and lo: "map toLowerByte (take (length ''Istio '') value) = map toLowerByte ''Istio ''"
    unfolding startsWithCaseVariant_def differsOnlyInCase_def by blast+
  from lo have "value \<noteq> []" by auto
  moreover from ne have "\<not> HasPrefix value ''Istio ''"
    by (simp only: HasPrefix_def) blast
  moreover have "\<not> HasPrefix value ''Bearer ''"
  proof
    assume "HasPrefix value ''Bearer ''"
    then obtain t where "value = ''Bearer '' @ t" by (auto simp: HasPrefix_append)
    with lo show False by (simp add: toLowerByte_I toLowerByte_B)
  qed
  ultimately show ?thesis by simp
qed

section \<open>Bearer tokens from gRPC metadata\<close>

text \<open>
  Claim C2. When the incoming metadata of the context has the key \<open>authorization\<close>,
  \<^verbatim>\<open>ExtractBearerToken\<close> returns, with a nil error, the first value of that key that
  starts with \<open>Bearer \<close>, without the prefix: if the value at index \<open>i\<close> has the
  prefix and no earlier value has it, the token returned is what follows the prefix
  in that value.
\<close>

theorem ExtractBearerToken_first_bearer_value:
  assumes "IncomingMD ctx = Some md"
    and "md ''authorization'' = Some authHeader"
    and "i < length authHeader"
    and "HasPrefix (authHeader ! i) ''Bearer ''"
    and "\<forall>j<i. \<not> HasPrefix (authHeader ! j) ''Bearer ''"
  shows "\<exists>token. ExtractBearerToken ctx = (token, None) \<and>
                 authHeader ! i = ''Bearer '' @ token"
proof -
  have run: "ExtractBearerToken ctx = bearerLoop authHeader"
    using assms(1,2)
    by (simp add: ExtractBearerToken_def FromIncomingContext_def authorizationMeta_def)
  have "bearerLoop authHeader = (TrimPrefix (authHeader ! i) BearerTokenPrefix, None)"
    using assms(3-5) by (intro bearerLoop_first) (simp_all add: BearerTokenPrefix_def)
  moreover have "authHeader ! i = ''Bearer '' @ TrimPrefix (authHeader ! i) BearerTokenPrefix"
    using HasPrefix_TrimPrefix [of "authHeader ! i" BearerTokenPrefix] assms(4)
    by (simp add: BearerTokenPrefix_def)
  ultimately show ?thesis using run by simp
qed

theorem ExtractBearerToken_first_bearer_value_witness:
  "ExtractBearerToken \<lparr>IncomingMD = Some [''authorization'' \<mapsto> [''Bearer abc123'']]\<rparr>
     = (''abc123'', None)
   \<and> ExtractBearerToken
       \<lparr>IncomingMD = Some [''authorization'' \<mapsto> [''Basic q'', ''Bearer t1'', ''Bearer t2'']]\<rparr>
     = (''t1'', None)"
proof -
  let ?md = "[''authorization'' \<mapsto> [''Bearer abc123'']] :: MD"
  let ?ctx = "\<lparr>IncomingMD = Some ?md\<rparr>"
  have h1: "IncomingMD ?ctx = Some ?md" by simp
  have h2: "?md ''authorization'' = Some [''Bearer abc123'']" by simp
  have h3: "(0::nat) < length [''Bearer abc123'']" by simp
  have h4: "HasPrefix ([''Bearer abc123''] ! 0) ''Bearer ''" by (simp add: HasPrefix_def)
  have h5: "\<forall>j<0::nat. \<not> HasPrefix ([''Bearer abc123''] ! j) ''Bearer ''" by simp
  from ExtractBearerToken_first_bearer_value [OF h1 h2 h3 h4 h5]
  have first: "ExtractBearerToken ?ctx = (''abc123'', None)" by auto
  let ?vs = "[''Basic q'', ''Bearer t1'', ''Bearer t2'']"
  let ?md' = "[''authorization'' \<mapsto> ?vs] :: MD"
  let ?ctx' = "\<lparr>IncomingMD = Some ?md'\<rparr>"
  have k1: "IncomingMD ?ctx' = Some ?md'" by simp
  have k2: "?md' ''authorization'' = Some ?vs" by simp
  have k3: "(1::nat) < length ?vs" by simp
  have k4: "HasPrefix (?vs ! 1) ''Bearer ''" by (simp add: HasPrefix_def)
  have k5: "\<forall>j<1::nat. \<not> HasPrefix (?vs ! j) ''Bearer ''" by (simp add: HasPrefix_def)
  from ExtractBearerToken_first_bearer_value [OF k1 k2 k3 k4 k5]
  have "ExtractBearerToken ?ctx' = (''t1'', None)" by auto
  with first show ?thesis by simp
qed

text \<open>
  Claim C3. \<^verbatim>\<open>ExtractBearerToken\<close> fails exactly when no token can be extracted:
  with no incoming metadata the error is \<open>no metadata is attached\<close>; with metadata
  that has no \<open>authorization\<close> key it is \<open>no HTTP authorization header exists\<close>;
  with values under the key of which none starts with \<open>Bearer \<close> it is the
  \<open>no bearer token exists\<close> error. The error is non-nil in these three cases and
  in no other, and with every error the token returned is empty.
\<close>

theorem ExtractBearerToken_errors:
  "(IncomingMD ctx = None \<longrightarrow>
      ExtractBearerToken ctx = ([], Some (Errorf ''no metadata is attached'')))
   \<and> (\<forall>md. IncomingMD ctx = Some md \<and> md ''authorization'' = None \<longrightarrow>
      ExtractBearerToken ctx = ([], Some (Errorf ''no HTTP authorization header exists'')))
   \<and> (\<forall>md vs. IncomingMD ctx = Some md \<and> md ''authorization'' = Some vs
        \<and> (\<forall>v\<in>set vs. \<not> HasPrefix v ''Bearer '') \<longrightarrow>
      ExtractBearerToken ctx =
        ([], Some (Errorf ''no bearer token exists in HTTP authorization header'')))
   \<and> (snd (ExtractBearerToken ctx) \<noteq> None \<longleftrightarrow>
        IncomingMD ctx = None
        \<or> (\<exists>md. IncomingMD ctx = Some md \<and>
              (md ''authorization'' = None
               \<or> (\<exists>vs. md ''authorization'' = Some vs
                     \<and> (\<forall>v\<in>set vs. \<not> HasPrefix v ''Bearer '')))))
   \<and> (snd (ExtractBearerToken ctx) \<noteq> None \<longrightarrow> fst (ExtractBearerToken ctx) = [])"
proof (cases "IncomingMD ctx")
  case None
  then show ?thesis
    by (simp add: ExtractBearerToken_def FromIncomingContext_def)
next
  case (Some md)
  show ?thesis
  proof (cases "md ''authorization''")
    case None
    with Some show ?thesis
      by (simp add: ExtractBearerToken_def FromIncomingContext_def authorizationMeta_def)
  next
    case (Some vs)
    with \<open>IncomingMD ctx = Some md\<close>
    have run: "ExtractBearerToken ctx = bearerLoop vs"
      by (simp add: ExtractBearerToken_def FromIncomingContext_def authorizationMeta_def)
    show ?thesis
    proof (cases "\<forall>v\<in>set vs. \<not> HasPrefix v ''Bearer ''")
      case True
      then have "bearerLoop vs =
          ([], Some (Errorf ''no bearer token exists in HTTP authorization header''))"
        using bearerLoop_none [of vs] by (simp add: BearerTokenPrefix_def)
      with run True Some \<open>IncomingMD ctx = Some md\<close> show ?thesis by simp
    next
      case False
      then have "snd (bearerLoop vs) = None"
        using bearerLoop_some [of vs] by (simp add: BearerTokenPrefix_def)
      with run False Some \<open>IncomingMD ctx = Some md\<close> show ?thesis by auto
    qed
  qed
qed

theorem ExtractBearerToken_errors_witness:
  "ExtractBearerToken \<lparr>IncomingMD = None\<rparr>
     = ([], Some (Errorf ''no metadata is attached''))
   \<and> ExtractBearerToken \<lparr>IncomingMD = Some Map.empty\<rparr>
     = ([], Some (Errorf ''no HTTP authorization header exists''))
   \<and> ExtractBearerToken \<lparr>IncomingMD = Some [''authorization'' \<mapsto> [''Basic abc'', ''Bear'']]\<rparr>
     = ([], Some (Errorf ''no bearer token exists in HTTP authorization header''))"
proof -
  let ?c0 = "\<lparr>IncomingMD = None\<rparr>"
  have r0: "ExtractBearerToken ?c0 = ([], Some (Errorf ''no metadata is attached''))"
    using ExtractBearerToken_errors [of ?c0] by simp
  let ?c1 = "\<lparr>IncomingMD = Some (Map.empty :: MD)\<rparr>"
  have "IncomingMD ?c1 = Some Map.empty \<and> (Map.empty :: MD) ''authorization'' = None"
    by simp
  with ExtractBearerToken_errors [of ?c1]
  have r1: "ExtractBearerToken ?c1 =
      ([], Some (Errorf ''no HTTP authorization header exists''))"
    by blast
  let ?vs = "[''Basic abc'', ''Bear'']"
  let ?md = "[''authorization'' \<mapsto> ?vs] :: MD"
  let ?c2 = "\<lparr>IncomingMD = Some ?md\<rparr>"
  have "IncomingMD ?c2 = Some ?md \<and> ?md ''authorization'' = Some ?vs
      \<and> (\<forall>v\<in>set ?vs. \<not> HasPrefix v ''Bearer '')"
    by (simp add: HasPrefix_def)
  with ExtractBearerToken_errors [of ?c2]
  have r2: "ExtractBearerToken ?c2 =
      ([], Some (Errorf ''no bearer token exists in HTTP authorization header''))"
    by blast
  from r0 r1 r2 show ?thesis by simp
qed

section \<open>Tokens from the HTTP authorization header\<close>

text \<open>
  Claim C4. When the value that \<^verbatim>\<open>Header.Get\<close> returns for \<open>authorization\<close>
  starts with \<open>Bearer \<close> or with \<open>Istio \<close>, \<^verbatim>\<open>ExtractRequestToken\<close> returns the
  rest of the value after that prefix, with a nil error.
\<close>

theorem ExtractRequestToken_strips_prefix:
  assumes "Header_Get (Header req) ''authorization'' = value"
    and "value = ''Bearer '' @ token \<or> value = ''Istio '' @ token"
  shows "ExtractRequestToken req = (token, None)"
proof -
  from assms(2) show ?thesis
  proof
    assume "value = ''Bearer '' @ token"
    with assms(1) show ?thesis
      by (simp add: ExtractRequestToken_def authorizationMeta_def BearerTokenPrefix_def
          HasPrefix_def TrimPrefix_def)
  next
    assume "value = ''Istio '' @ token"
    with assms(1) show ?thesis
      by (simp add: ExtractRequestToken_def authorizationMeta_def BearerTokenPrefix_def
          K8sTokenPrefix_def HasPrefix_def TrimPrefix_def)
  qed
qed

theorem ExtractRequestToken_strips_prefix_witness:
  "ExtractRequestToken \<lparr>Header = [''Authorization'' \<mapsto> [''Istio xyz'']]\<rparr> = (''xyz'', None)
   \<and> ExtractRequestToken \<lparr>Header = [''Authorization'' \<mapsto> [''Bearer abc'']]\<rparr> = (''abc'', None)"
proof -
  let ?r1 = "\<lparr>Header = [''Authorization'' \<mapsto> [''Istio xyz'']]\<rparr>"
  have g1: "Header_Get (Header ?r1) ''authorization'' = ''Istio xyz''"
    by (simp add: Header_Get_def key_canonical)
  have p1: "''Istio xyz'' = ''Bearer '' @ ''xyz'' \<or> ''Istio xyz'' = ''Istio '' @ ''xyz''"
    by simp
  let ?r2 = "\<lparr>Header = [''Authorization'' \<mapsto> [''Bearer abc'']]\<rparr>"
  have g2: "Header_Get (Header ?r2) ''authorization'' = ''Bearer abc''"
    by (simp add: Header_Get_def key_canonical)
  have p2: "''Bearer abc'' = ''Bearer '' @ ''abc'' \<or> ''Bearer abc'' = ''Istio '' @ ''abc''"
    by simp
  from ExtractRequestToken_strips_prefix [OF g1 p1]
    ExtractRequestToken_strips_prefix [OF g2 p2]
  show ?thesis by simp
qed

text \<open>
  Claim C5. \<^verbatim>\<open>ExtractRequestToken\<close> fails exactly when the \<open>authorization\<close> value
  is empty, with the error \<open>no HTTP authorization header exists\<close>, or is not empty
  and starts with neither \<open>Bearer \<close> nor \<open>Istio \<close>, with the
  \<open>no bearer token exists\<close> error; with every error the token returned is empty.
\<close>

theorem ExtractRequestToken_errors:
  assumes "Header_Get (Header req) ''authorization'' = value"
  shows "(value = [] \<longrightarrow>
            ExtractRequestToken req = ([], Some (Errorf ''no HTTP authorization header exists'')))
       \<and> (value \<noteq> [] \<and> \<not> HasPrefix value ''Bearer '' \<and> \<not> HasPrefix value ''Istio '' \<longrightarrow>
            ExtractRequestToken req =
              ([], Some (Errorf ''no bearer token exists in HTTP authorization header'')))
       \<and> (snd (ExtractRequestToken req) \<noteq> None \<longleftrightarrow>
            value = [] \<or> (\<not> HasPrefix value ''Bearer '' \<and> \<not> HasPrefix value ''Istio ''))
       \<and> (snd (ExtractRequestToken req) \<noteq> None \<longrightarrow> fst (ExtractRequestToken req) = [])"
  using assms
  by (simp add: ExtractRequestToken_def authorizationMeta_def BearerTokenPrefix_def
      K8sTokenPrefix_def)

theorem ExtractRequestToken_errors_witness:
  "ExtractRequestToken \<lparr>Header = Map.empty\<rparr>
     = ([], Some (Errorf ''no HTTP authorization header exists''))
   \<and> ExtractRequestToken \<lparr>Header = [''Authorization'' \<mapsto> [''Basic abc'']]\<rparr>
     = ([], Some (Errorf ''no bearer token exists in HTTP authorization header''))"
proof -
  let ?r0 = "\<lparr>Header = (Map.empty :: Header)\<rparr>"
  have g0: "Header_Get (Header ?r0) ''authorization'' = []"
    by (simp add: Header_Get_def)
  from ExtractRequestToken_errors [OF g0]
  have e0: "ExtractRequestToken ?r0 =
      ([], Some (Errorf ''no HTTP authorization header exists''))"
    by blast
  let ?r1 = "\<lparr>Header = [''Authorization'' \<mapsto> [''Basic abc'']]\<rparr>"
  have g1: "Header_Get (Header ?r1) ''authorization'' = ''Basic abc''"
    by (simp add: Header_Get_def key_canonical)
  have n1: "''Basic abc'' \<noteq> [] \<and> \<not> HasPrefix ''Basic abc'' ''Bearer ''
      \<and> \<not> HasPrefix ''Basic abc'' ''Istio ''"
    by (simp add: HasPrefix_def)
  with ExtractRequestToken_errors [OF g1]
  have e1: "ExtractRequestToken ?r1 =
      ([], Some (Errorf ''no bearer token exists in HTTP authorization header''))"
    by blast
  from e0 e1 show ?thesis by simp
qed

text \<open>
  Claim C9. Prefix matching is case-sensitive in both extractors. A header value that
  starts with a case variant of \<open>Bearer \<close> or of \<open>Istio \<close> (such as \<open>bearer abc\<close>
  or \<open>istio xyz\<close>) makes \<^verbatim>\<open>ExtractRequestToken\<close> return the
  \<open>no bearer token exists\<close> error, and metadata whose \<open>authorization\<close> values all
  start with such a variant makes \<^verbatim>\<open>ExtractBearerToken\<close> return it; neither strips
  the prefix.
\<close>

theorem prefix_matching_case_sensitive:
  "(Header_Get (Header req) ''authorization'' = value
      \<and> (startsWithCaseVariant value ''Bearer '' \<or> startsWithCaseVariant value ''Istio '')
     \<longrightarrow> ExtractRequestToken req =
           ([], Some (Errorf ''no bearer token exists in HTTP authorization header'')))
   \<and> (IncomingMD ctx = Some md \<and> md ''authorization'' = Some vs
      \<and> (\<forall>v\<in>set vs. startsWithCaseVariant v ''Bearer '' \<or> startsWithCaseVariant v ''Istio '')
     \<longrightarrow> ExtractBearerToken ctx =
           ([], Some (Errorf ''no bearer token exists in HTTP authorization header'')))"
proof (intro conjI impI)
  assume a: "Header_Get (Header req) ''authorization'' = value
      \<and> (startsWithCaseVariant value ''Bearer '' \<or> startsWithCaseVariant value ''Istio '')"
  then have "value \<noteq> [] \<and> \<not> HasPrefix value ''Bearer '' \<and> \<not> HasPrefix value ''Istio ''"
    using caseVariant_no_prefix by blast
  with a show "ExtractRequestToken req =
           ([], Some (Errorf ''no bearer token exists in HTTP authorization header''))"
    by (simp add: ExtractRequestToken_def authorizationMeta_def BearerTokenPrefix_def
        K8sTokenPrefix_def)
next
  assume a: "IncomingMD ctx = Some md \<and> md ''authorization'' = Some vs
      \<and> (\<forall>v\<in>set vs. startsWithCaseVariant v ''Bearer '' \<or> startsWithCaseVariant v ''Istio '')"
  then have "\<forall>v\<in>set vs. \<not> HasPrefix v BearerTokenPrefix"
    using caseVariant_no_prefix by (auto simp: BearerTokenPrefix_def)
  then have "bearerLoop vs =
      ([], Some (Errorf ''no bearer token exists in HTTP authorization header''))"
    by (rule bearerLoop_none)
  with a show "ExtractBearerToken ctx =
           ([], Some (Errorf ''no bearer token exists in HTTP authorization header''))"
    by (simp add: ExtractBearerToken_def FromIncomingContext_def authorizationMeta_def)
qed

theorem prefix_matching_case_sensitive_witness:
  "ExtractRequestToken \<lparr>Header = [''Authorization'' \<mapsto> [''bearer abc'']]\<rparr>
     = ([], Some (Errorf ''no bearer token exists in HTTP authorization header''))
   \<and> ExtractBearerToken \<lparr>IncomingMD = Some [''authorization'' \<mapsto> [''BEARER abc'', ''istio xyz'']]\<rparr>
     = ([], Some (Errorf ''no bearer token exists in HTTP authorization header''))"
proof -
  let ?req = "\<lparr>Header = [''Authorization'' \<mapsto> [''bearer abc'']]\<rparr>"
  let ?vs = "[''BEARER abc'', ''istio xyz'']"
  let ?md = "[''authorization'' \<mapsto> ?vs] :: MD"
  let ?ctx = "\<lparr>IncomingMD = Some ?md\<rparr>"
  have v1: "startsWithCaseVariant ''bearer abc'' ''Bearer ''" by code_simp
  have v2: "startsWithCaseVariant ''BEARER abc'' ''Bearer ''" by code_simp
  have v3: "startsWithCaseVariant ''istio xyz'' ''Istio ''" by code_simp
  have g: "Header_Get (Header ?req) ''authorization'' = ''bearer abc''"
    by (simp add: Header_Get_def key_canonical)
  have a: "Header_Get (Header ?req) ''authorization'' = ''bearer abc''
      \<and> (startsWithCaseVariant ''bearer abc'' ''Bearer ''
         \<or> startsWithCaseVariant ''bearer abc'' ''Istio '')"
    using g v1 by simp
  have b: "IncomingMD ?ctx = Some ?md \<and> ?md ''authorization'' = Some ?vs
      \<and> (\<forall>v\<in>set ?vs. startsWithCaseVariant v ''Bearer '' \<or> startsWithCaseVariant v ''Istio '')"
    using v2 v3 by simp
  from prefix_matching_case_sensitive [of ?req "''bearer abc''" ?ctx ?md ?vs] a b
  show ?thesis by blast
qed

text \<open>
  Claim C10. A value that is exactly the prefix is accepted with an empty token:
  \<^verbatim>\<open>ExtractRequestToken\<close> on the header value \<open>Bearer \<close> or \<open>Istio \<close>, and
  \<^verbatim>\<open>ExtractBearerToken\<close> on the metadata value \<open>Bearer \<close>, return the empty string
  with a nil error.
\<close>

theorem bare_prefix_yields_empty_token:
  "(Header_Get (Header req) ''authorization'' = ''Bearer '' \<longrightarrow>
      ExtractRequestToken req = ([], None))
   \<and> (Header_Get (Header req) ''authorization'' = ''Istio '' \<longrightarrow>
      ExtractRequestToken req = ([], None))
   \<and> (IncomingMD ctx = Some md \<and> md ''authorization'' = Some [''Bearer ''] \<longrightarrow>
      ExtractBearerToken ctx = ([], None))"
  by (simp add: ExtractRequestToken_def ExtractBearerToken_def FromIncomingContext_def
      authorizationMeta_def BearerTokenPrefix_def K8sTokenPrefix_def HasPrefix_def TrimPrefix_def)

theorem bare_prefix_yields_empty_token_witness:
  "ExtractRequestToken \<lparr>Header = [''Authorization'' \<mapsto> [''Bearer '']]\<rparr> = ([], None)
   \<and> ExtractRequestToken \<lparr>Header = [''Authorization'' \<mapsto> [''Istio '']]\<rparr> = ([], None)
   \<and> ExtractBearerToken \<lparr>IncomingMD = Some [''authorization'' \<mapsto> [''Bearer '']]\<rparr> = ([], None)"
proof -
  let ?r1 = "\<lparr>Header = [''Authorization'' \<mapsto> [''Bearer '']]\<rparr>"
  let ?r2 = "\<lparr>Header = [''Authorization'' \<mapsto> [''Istio '']]\<rparr>"
  let ?md = "[''authorization'' \<mapsto> [''Bearer '']] :: MD"
  let ?ctx = "\<lparr>IncomingMD = Some ?md\<rparr>"
  have g1: "Header_Get (Header ?r1) ''authorization'' = ''Bearer ''"
    by (simp add: Header_Get_def key_canonical)
  have g2: "Header_Get (Header ?r2) ''authorization'' = ''Istio ''"
    by (simp add: Header_Get_def key_canonical)
  have m: "IncomingMD ?ctx = Some ?md \<and> ?md ''authorization'' = Some [''Bearer '']"
    by simp
  from bare_prefix_yields_empty_token [of ?r1 ?ctx ?md] g1 m
  have e1: "ExtractRequestToken ?r1 = ([], None)"
    and e3: "ExtractBearerToken ?ctx = ([], None)"
    by blast+
  from bare_prefix_yields_empty_token [of ?r2 ?ctx ?md] g2
  have e2: "ExtractRequestToken ?r2 = ([], None)" by blast
  from e1 e2 e3 show ?thesis by simp
qed

section \<open>Reserved resource names\<close>

text \<open>
  Claim C6. The resource name of a root certificate request is the string
  \<open>ROOTCA\<close> and the resource name of the workload key and certificate is the string
  \<open>default\<close>.
\<close>

theorem reserved_resource_names:
  "RootCertReqResourceName = ''ROOTCA'' \<and> WorkloadKeyCertResourceName = ''default''"
  by (simp add: RootCertReqResourceName_def WorkloadKeyCertResourceName_def)

section \<open>Rotation of a cached secret\<close>

text \<open>
  Claim C8. For a cached secret, the time from its creation to the rotation deadline
  is its lifetime \<open>ExpireTime - CreatedTime\<close> multiplied by one minus the rotation
  grace ratio; with the ratio 0.10 and a lifetime of one hour the deadline is six
  minutes before the expiry.
\<close>

theorem time_to_rotation:
  "timeToRotation S ratio = of_int (ExpireTime S - CreatedTime S) * (1 - ratio)
   \<and> (ExpireTime S - CreatedTime S = Hour \<longrightarrow>
        of_int (ExpireTime S) - rotationDeadline S (1 / 10) = of_int (6 * Minute))"
  by (simp add: timeToRotation_def rotationDeadline_def rotationGracePeriod_def
      Hour_def Minute_def Second_def algebra_simps)

theorem time_to_rotation_witness:
  "timeToRotation
     \<lparr>CertificateChain = [], PrivateKey = [], RootCert = [], ResourceName = ''default'',
      CreatedTime = 1000, ExpireTime = 3600000001000\<rparr> (1 / 10) = 3240000000000
   \<and> rotationDeadline
     \<lparr>CertificateChain = [], PrivateKey = [], RootCert = [], ResourceName = ''default'',
      CreatedTime = 1000, ExpireTime = 3600000001000\<rparr> (1 / 10) = 3240000001000"
proof -
  let ?S = "\<lparr>CertificateChain = [], PrivateKey = [], RootCert = [],
      ResourceName = ''default'', CreatedTime = 1000, ExpireTime = 3600000001000\<rparr>"
  have h: "ExpireTime ?S - CreatedTime ?S = Hour"
    by (simp add: Hour_def Minute_def Second_def)
  from time_to_rotation [of ?S "1 / 10"] h
  have t: "timeToRotation ?S (1 / 10) = of_int (ExpireTime ?S - CreatedTime ?S) * (1 - 1 / 10)"
    and d: "of_int (ExpireTime ?S) - rotationDeadline ?S (1 / 10) = of_int (6 * Minute)"
    by blast+
  from t have "timeToRotation ?S (1 / 10) = 3240000000000" by simp
  moreover from d have "rotationDeadline ?S (1 / 10) = 3240000001000"
    by (simp add: Minute_def Second_def)
  ultimately show ?thesis by simp
qed

end
